theory Spec2Isabelle
  imports Main "HOL-Library.Word"
begin

section \<open>The StaticTokens resource of api/types/statictokens.go\<close>

text \<open>
  The file defines the \<open>StaticTokensV2\<close> resource, its constructors, its schema
  assembler and the default marshaler. Go pointers to a \<open>StaticTokensV2\<close> are
  addresses into an explicit heap, so that what \<open>Marshal\<close> writes, and where, is
  visible. Errors are values: every early \<open>return nil, err\<close> is an \<open>Inl\<close>.
\<close>

subsection \<open>Basic types\<close>

type_synonym byte = "8 word"
type_synonym int64 = "64 word"

text \<open>
  A \<open>time.Time\<close> instant, counted from Go's zero instant: \<open>IsZero\<close> holds of
  exactly the instant \<open>0\<close>.
\<close>

type_synonym Time = int

definition IsZero :: "Time \<Rightarrow> bool" where
  "IsZero t \<longleftrightarrow> t = 0"

text \<open>
  Errors. \<open>trace.BadParameter\<close> builds a \<open>BadParameter\<close> error; any other error
  an option or the encoder reports is an \<open>OtherError\<close>; a Go panic is \<open>Panic\<close>.
  \<open>trace.Wrap\<close> adds call-site context and keeps the kind and the message.
\<close>

datatype error = BadParameter string | OtherError string | Panic string

fun Error_msg :: "error \<Rightarrow> string" where
  "Error_msg (BadParameter m) = m"
| "Error_msg (OtherError m) = m"
| "Error_msg (Panic m) = m"

definition trace_Wrap :: "error \<Rightarrow> error" where
  "trace_Wrap err = err"

subsection \<open>Operands of fmt.Sprintf\<close>

text \<open>
  An operand of \<open>fmt.Sprintf\<close>: the name of its dynamic type (what \<open>%T\<close> prints)
  and its default format (what \<open>%v\<close> prints). The nil interface has the type
  name \<open><nil>\<close>, which no other value has.
\<close>

datatype fmt_arg = Arg (type_name: string) (default_format: string)

definition str :: "string \<Rightarrow> fmt_arg" where
  "str s = Arg ''string'' s"

subsection \<open>The data model\<close>

text \<open>
  Modelled from the spec: the declarations of \<open>ProvisionTokenV1\<close>, \<open>Metadata\<close>,
  \<open>StaticTokensSpecV2\<close>, \<open>StaticTokensV2\<close> and \<open>MarshalConfig\<close> are not in
  this file. A token entry has a token string, role names and an expiry; the
  envelope has a name, a namespace, a resource ID and an optional expiry; the
  recognised options are SkipValidation, PreserveResourceID, ID and Expires.
\<close>

record ProvisionTokenV1 =
  Roles :: "string list"
  Expires :: Time
  Token :: string

record Metadata =
  Name :: string
  Namespace :: string
  Expires :: "Time option"
  ID :: int64

record StaticTokensSpecV2 =
  StaticTokens :: "ProvisionTokenV1 list"

record StaticTokensV2 =
  Kind :: string
  SubKind :: string
  Version :: string
  Metadata :: Metadata
  Spec :: StaticTokensSpecV2

record MarshalConfig =
  SkipValidation :: bool
  ID :: int64
  PreserveResourceID :: bool
  Expires :: Time

text \<open>
  Modelled from the spec: the constants \<open>KindStaticTokens\<close>, \<open>V2\<close> and
  \<open>MetaNameStaticTokens\<close> are declared elsewhere in the package; the spec gives
  their values (kind "static_tokens", version "v2", name "static_tokens").
\<close>

definition KindStaticTokens :: string where
  "KindStaticTokens = ''static_tokens''"

definition V2 :: string where
  "V2 = ''v2''"

definition MetaNameStaticTokens :: string where
  "MetaNameStaticTokens = ''static_tokens''"

text \<open>
  What the file takes from other packages, as parameters: the process default
  namespace \<open>defaults.Namespace\<close>, the schema fragments \<open>V2SchemaTemplate\<close>,
  \<open>MetadataSchema\<close> and \<open>DefaultDefinitions\<close>, and the three codec routines of
  package \<open>utils\<close>. \<open>FastMarshal\<close> is handed a pointer: \<open>None\<close> is the nil
  pointer, \<open>Some v\<close> a pointer to an object holding \<open>v\<close>; it only reads the object.
  The two decoders fill a fresh zero-valued target, so they are functions of the
  bytes (and the schema document) alone.
\<close>

record env =
  defaults_Namespace :: string
  V2SchemaTemplate :: string
  MetadataSchema :: string
  DefaultDefinitions :: string
  utils_FastMarshal :: "StaticTokensV2 option \<Rightarrow> error + byte list"
  utils_FastUnmarshal :: "byte list \<Rightarrow> error + StaticTokensV2"
  utils_UnmarshalWithSchema :: "string \<Rightarrow> byte list \<Rightarrow> error + StaticTokensV2"
  fmt_Sprintf :: "string \<Rightarrow> fmt_arg list \<Rightarrow> string"

subsection \<open>fmt.Sprintf\<close>

text \<open>
  A format is plain when each of its directives is \<open>%v\<close>, \<open>%T\<close> or \<open>%%\<close>, with
  no flag, width, precision or argument index: the form of every format string
  written in this file. A plain format is rendered here: \<open>%v\<close> and \<open>%T\<close> take
  the next operand, \<open>%%\<close> is a percent sign, a directive without operand is
  \<open>%!v(MISSING)\<close>, and operands left over are listed as \<open>%!(EXTRA ...)\<close>. The
  rendering of any other format (the text of a decoder's error, used as a format
  at two places, may be one) is left to the library, a parameter of the
  environment; \<open>render\<close> is applied to plain formats only.
\<close>

fun plain_format :: "string \<Rightarrow> bool" where
  "plain_format [] = True"
| "plain_format [c] = (c \<noteq> CHR ''%'')"
| "plain_format (c # v # fs) =
     (if c \<noteq> CHR ''%'' then plain_format (v # fs)
      else (v = CHR ''v'' \<or> v = CHR ''T'' \<or> v = CHR ''%'') \<and> plain_format fs)"

definition extra_arg :: "fmt_arg \<Rightarrow> string" where
  "extra_arg a =
     (if type_name a = ''<nil>'' then ''<nil>'' else type_name a @ ''='' @ default_format a)"

fun extra_args :: "fmt_arg list \<Rightarrow> string" where
  "extra_args [] = []"
| "extra_args [a] = extra_arg a"
| "extra_args (a # b # bs) = extra_arg a @ '', '' @ extra_args (b # bs)"

definition verb :: "char \<Rightarrow> fmt_arg \<Rightarrow> string" where
  "verb v a = (if v = CHR ''T'' then type_name a else default_format a)"

fun render :: "string \<Rightarrow> fmt_arg list \<Rightarrow> string" where
  "render [] [] = []"
| "render [] (a # as) = ''%!(EXTRA '' @ extra_args (a # as) @ '')''"
| "render [c] as = c # render [] as"
| "render (c # v # fs) as =
     (if c \<noteq> CHR ''%'' then c # render (v # fs) as
      else if v = CHR ''%'' then CHR ''%'' # render fs as
      else (case as of
              [] \<Rightarrow> ''%!'' @ [v] @ ''(MISSING)'' @ render fs []
            | a # as' \<Rightarrow> verb v a @ render fs as'))"

definition Sprintf :: "env \<Rightarrow> string \<Rightarrow> fmt_arg list \<Rightarrow> string" where
  "Sprintf E format a =
     (if plain_format format then render format a else fmt_Sprintf E format a)"

definition trace_BadParameter :: "env \<Rightarrow> string \<Rightarrow> fmt_arg list \<Rightarrow> error" where
  "trace_BadParameter E message args = BadParameter (Sprintf E message args)"

subsection \<open>The envelope\<close>

text \<open>
  Modelled from the spec: \<open>Metadata.CheckAndSetDefaults\<close>, \<open>Metadata.Expiry\<close> and
  \<open>Metadata.SetExpiry\<close> are not in this file. Defaulting fills the namespace with
  the process default if it is empty and fails with a BadParameter error if the
  name is empty. The method mutates its receiver and returns an error, so the
  model returns the receiver's new state together with the error, if any.
\<close>

definition Metadata_CheckAndSetDefaults :: "env \<Rightarrow> Metadata \<Rightarrow> Metadata \<times> error option" where
  "Metadata_CheckAndSetDefaults E m =
     (let m = (if Namespace m = [] then m\<lparr>Namespace := defaults_Namespace E\<rparr> else m)
      in if Name m = [] then (m, Some (trace_BadParameter E ''missing parameter Name'' []))
         else (m, None))"

definition Metadata_Expiry :: "Metadata \<Rightarrow> Time" where
  "Metadata_Expiry m = (case Metadata.Expires m of None \<Rightarrow> 0 | Some t \<Rightarrow> t)"

definition Metadata_SetExpiry :: "Metadata \<Rightarrow> Time \<Rightarrow> Metadata" where
  "Metadata_SetExpiry m expires = m\<lparr>Metadata.Expires := Some expires\<rparr>"

subsection \<open>Methods of StaticTokensV2\<close>

definition GetVersion :: "StaticTokensV2 \<Rightarrow> string" where
  "GetVersion c = Version c"

definition GetKind :: "StaticTokensV2 \<Rightarrow> string" where
  "GetKind c = Kind c"

definition GetResourceID :: "StaticTokensV2 \<Rightarrow> int64" where
  "GetResourceID c = Metadata.ID (Metadata c)"

definition SetResourceID :: "StaticTokensV2 \<Rightarrow> int64 \<Rightarrow> StaticTokensV2" where
  "SetResourceID c id' = c\<lparr>Metadata := (Metadata c)\<lparr>Metadata.ID := id'\<rparr>\<rparr>"

definition GetName :: "StaticTokensV2 \<Rightarrow> string" where
  "GetName c = Name (Metadata c)"

definition GetMetadata :: "StaticTokensV2 \<Rightarrow> Metadata" where
  "GetMetadata c = Metadata c"

definition Expiry :: "StaticTokensV2 \<Rightarrow> Time" where
  "Expiry c = Metadata_Expiry (Metadata c)"

definition SetExpiry :: "StaticTokensV2 \<Rightarrow> Time \<Rightarrow> StaticTokensV2" where
  "SetExpiry c expires = c\<lparr>Metadata := Metadata_SetExpiry (Metadata c) expires\<rparr>"

text \<open>
  \<open>CheckAndSetDefaults\<close> defaults the embedded metadata in place and wraps its
  error. \<open>CheckAndSetDefaults_with\<close> is the method as the file writes it, over
  whatever \<open>Metadata.CheckAndSetDefaults\<close> does; \<open>CheckAndSetDefaults\<close> is the
  method over the metadata defaulting modelled above.
\<close>

definition CheckAndSetDefaults_with ::
    "(Metadata \<Rightarrow> Metadata \<times> error option) \<Rightarrow> StaticTokensV2 \<Rightarrow> StaticTokensV2 \<times> error option" where
  "CheckAndSetDefaults_with Metadata_defaults c =
     (case Metadata_defaults (Metadata c) of
        (m, Some err) \<Rightarrow> (c\<lparr>Metadata := m\<rparr>, Some (trace_Wrap err))
      | (m, None) \<Rightarrow> (c\<lparr>Metadata := m\<rparr>, None))"

definition CheckAndSetDefaults :: "env \<Rightarrow> StaticTokensV2 \<Rightarrow> StaticTokensV2 \<times> error option" where
  "CheckAndSetDefaults E c = CheckAndSetDefaults_with (Metadata_CheckAndSetDefaults E) c"

subsection \<open>Constructors\<close>

text \<open>
  Both constructors return a pointer to a new object; the model returns the value
  that object holds. \<open>NewStaticTokens_with\<close> is the constructor as the file
  writes it, over whatever \<open>Metadata.CheckAndSetDefaults\<close> does and whatever
  \<open>defaults.Namespace\<close> is; \<open>NewStaticTokens\<close> is the constructor in an
  environment, over the metadata defaulting modelled above.
\<close>

definition NewStaticTokens_with ::
    "(Metadata \<Rightarrow> Metadata \<times> error option) \<Rightarrow> string \<Rightarrow> StaticTokensSpecV2 \<Rightarrow> error + StaticTokensV2" where
  "NewStaticTokens_with Metadata_defaults namespace spec =
     (let st = \<lparr>Kind = KindStaticTokens, SubKind = [], Version = V2,
                Metadata = \<lparr>Name = MetaNameStaticTokens, Namespace = namespace,
                             Expires = None, ID = 0\<rparr>,
                Spec = spec\<rparr>
      in case CheckAndSetDefaults_with Metadata_defaults st of
           (st, Some err) \<Rightarrow> Inl (trace_Wrap err)
         | (st, None) \<Rightarrow> Inr st)"

definition NewStaticTokens :: "env \<Rightarrow> StaticTokensSpecV2 \<Rightarrow> error + StaticTokensV2" where
  "NewStaticTokens E spec =
     NewStaticTokens_with (Metadata_CheckAndSetDefaults E) (defaults_Namespace E) spec"

definition DefaultStaticTokens :: "env \<Rightarrow> StaticTokensV2" where
  "DefaultStaticTokens E =
     \<lparr>Kind = KindStaticTokens, SubKind = [], Version = V2,
      Metadata = \<lparr>Name = MetaNameStaticTokens, Namespace = defaults_Namespace E,
                   Expires = None, ID = 0\<rparr>,
      Spec = \<lparr>StaticTokens = []\<rparr>\<rparr>"

subsection \<open>The schema assembler\<close>

definition StaticTokensSpecSchemaTemplate :: string where
  \<open>StaticTokensSpecSchemaTemplate = ''{
	"type": "object",
	"additionalProperties": false,
	"properties": {
		"static_tokens": {
			"type": "array",
			"items": {
				"type": "object",
				"additionalProperties": false,
				"properties": {
					"expires": {
						"type": "string"
					},
					"roles": {
						"type": "array",
						"items": {
							"type": "string"
						}
					},
					"token": {
						"type": "string"
					}
				}
			}
		}%v
  	}
}''\<close>

text \<open>
  The local \<open>staticTokensSchema\<close> is declared empty and tested at once, before
  anything is assigned to it.
\<close>

definition GetStaticTokensSchema :: "env \<Rightarrow> string \<Rightarrow> string" where
  "GetStaticTokensSchema E extensionSchema =
     (let staticTokensSchema = ([] :: string);
          staticTokensSchema =
            (if staticTokensSchema = []
             then Sprintf E StaticTokensSpecSchemaTemplate [str []]
             else Sprintf E StaticTokensSpecSchemaTemplate [str ('','' @ extensionSchema)])
      in Sprintf E (V2SchemaTemplate E)
           [str (MetadataSchema E), str staticTokensSchema, str (DefaultDefinitions E)])"

subsection \<open>Marshal options\<close>

text \<open>
  Modelled from the spec: \<open>MarshalOption\<close> and \<open>CollectOptions\<close> are not in this
  file. An option updates the configuration or fails; the configuration is built
  fresh per call from the option list, starting from the zero value, and
  collection fails with the first failing option's error.
\<close>

type_synonym MarshalOption = "MarshalConfig \<Rightarrow> error + MarshalConfig"

definition zero_MarshalConfig :: MarshalConfig where
  "zero_MarshalConfig = \<lparr>SkipValidation = False, ID = 0, PreserveResourceID = False, Expires = 0\<rparr>"

fun collect :: "MarshalConfig \<Rightarrow> MarshalOption list \<Rightarrow> error + MarshalConfig" where
  "collect cfg [] = Inr cfg"
| "collect cfg (o' # os) =
     (case o' cfg of Inl err \<Rightarrow> Inl (trace_Wrap err) | Inr cfg' \<Rightarrow> collect cfg' os)"

definition CollectOptions :: "MarshalOption list \<Rightarrow> error + MarshalConfig" where
  "CollectOptions opts = collect zero_MarshalConfig opts"

definition WithResourceID :: "int64 \<Rightarrow> MarshalOption" where
  "WithResourceID id' cfg = Inr (cfg\<lparr>ID := id'\<rparr>)"

definition WithExpires :: "Time \<Rightarrow> MarshalOption" where
  "WithExpires expires cfg = Inr (cfg\<lparr>Expires := expires\<rparr>)"

definition opt_SkipValidation :: MarshalOption where
  "opt_SkipValidation cfg = Inr (cfg\<lparr>SkipValidation := True\<rparr>)"

definition opt_PreserveResourceID :: MarshalOption where
  "opt_PreserveResourceID cfg = Inr (cfg\<lparr>PreserveResourceID := True\<rparr>)"

subsection \<open>The default marshaler\<close>

text \<open>
  The decoding step of \<open>Unmarshal\<close> (the \<open>if cfg.SkipValidation\<close> statement): the
  fast decoder, or the validating decoder on the schema with no extension; either
  failure becomes a BadParameter error carrying the decoder's message.
\<close>

definition decode :: "env \<Rightarrow> MarshalConfig \<Rightarrow> byte list \<Rightarrow> error + StaticTokensV2" where
  "decode E cfg bytes =
     (if SkipValidation cfg then
        (case utils_FastUnmarshal E bytes of
           Inl err \<Rightarrow> Inl (trace_BadParameter E (Error_msg err) [])
         | Inr staticTokens \<Rightarrow> Inr staticTokens)
      else
        (case utils_UnmarshalWithSchema E (GetStaticTokensSchema E []) bytes of
           Inl err \<Rightarrow> Inl (trace_BadParameter E (Error_msg err) [])
         | Inr staticTokens \<Rightarrow> Inr staticTokens))"

text \<open>
  The two overrides that end \<open>Unmarshal\<close>, in the order of the source.
\<close>

definition overrides :: "MarshalConfig \<Rightarrow> StaticTokensV2 \<Rightarrow> StaticTokensV2" where
  "overrides cfg staticTokens =
     (let staticTokens = (if ID cfg \<noteq> 0 then SetResourceID staticTokens (ID cfg) else staticTokens);
          staticTokens = (if \<not> IsZero (Expires cfg) then SetExpiry staticTokens (Expires cfg)
                          else staticTokens)
      in staticTokens)"

text \<open>
  \<open>Unmarshal\<close> returns a pointer to its own local variable; the model returns the
  value that object holds.
\<close>

definition Unmarshal :: "env \<Rightarrow> byte list \<Rightarrow> MarshalOption list \<Rightarrow> error + StaticTokensV2" where
  "Unmarshal E bytes opts =
     (if length bytes = 0 then Inl (trace_BadParameter E ''missing resource data'' [])
      else case CollectOptions opts of
        Inl err \<Rightarrow> Inl (trace_Wrap err)
      | Inr cfg \<Rightarrow>
          (case decode E cfg bytes of
             Inl err \<Rightarrow> Inl err
           | Inr staticTokens \<Rightarrow>
               (case CheckAndSetDefaults E staticTokens of
                  (staticTokens, Some err) \<Rightarrow> Inl (trace_Wrap err)
                | (staticTokens, None) \<Rightarrow> Inr (overrides cfg staticTokens))))"

text \<open>
  A value of the interface \<open>StaticTokens\<close> is a pointer to a \<open>StaticTokensV2\<close>, or
  a value of some other dynamic type (the nil interface included), of which the
  marshaler only formats the type. The heap holds the \<open>StaticTokensV2\<close> objects;
  an address outside it is the nil pointer.
\<close>

type_synonym addr = nat
type_synonym heap = "StaticTokensV2 list"

datatype StaticTokens = StaticTokensV2_ptr addr | Other_impl fmt_arg

definition deref :: "heap \<Rightarrow> addr \<Rightarrow> StaticTokensV2 option" where
  "deref h p = (if p < length h then Some (h ! p) else None)"

definition alloc :: "heap \<Rightarrow> StaticTokensV2 \<Rightarrow> addr \<times> heap" where
  "alloc h v = (length h, h @ [v])"

definition SetResourceID_at :: "heap \<Rightarrow> addr \<Rightarrow> int64 \<Rightarrow> heap" where
  "SetResourceID_at h p id' = h[p := SetResourceID (h ! p) id']"

text \<open>
  \<open>Marshal\<close> returns its result and the heap it leaves. \<open>copy := *resource\<close>
  allocates a new object holding the value read through \<open>resource\<close> (a panic if
  the pointer is nil); \<open>copy.SetResourceID(0)\<close> writes to that object;
  \<open>resource = &copy\<close> makes the encoder read it.
\<close>

definition Marshal :: "env \<Rightarrow> heap \<Rightarrow> StaticTokens \<Rightarrow> MarshalOption list \<Rightarrow> (error + byte list) \<times> heap" where
  "Marshal E h c opts =
     (case CollectOptions opts of
        Inl err \<Rightarrow> (Inl (trace_Wrap err), h)
      | Inr cfg \<Rightarrow>
          (case c of
             StaticTokensV2_ptr resource \<Rightarrow>
               (if \<not> PreserveResourceID cfg then
                  (case deref h resource of
                     None \<Rightarrow> (Inl (Panic ''invalid memory address or nil pointer dereference''), h)
                   | Some v \<Rightarrow>
                       (case alloc h v of
                          (copy, h) \<Rightarrow>
                            (let h = SetResourceID_at h copy 0;
                                 resource = copy
                             in (utils_FastMarshal E (deref h resource), h))))
                else (utils_FastMarshal E (deref h resource), h))
           | Other_impl t \<Rightarrow>
               (Inl (trace_BadParameter E ''unrecognized resource version %T'' [t]), h)))"

subsection \<open>A sample environment\<close>

text \<open>
  A small concrete environment on which the theorems below are exercised. Its
  codec keeps one thing only, the resource ID, in a single byte; every other
  field of a decoded resource is that of the default resource in namespace
  "default". Its formats are all plain, so what stands for the library's
  rendering of other formats is never reached. An option that always fails
  stands for any option that rejects its configuration, and a metadata
  defaulting that always fails for any defaulting that rejects its metadata.
\<close>

definition sample_resource :: "int64 \<Rightarrow> StaticTokensV2" where
  "sample_resource i =
     \<lparr>Kind = ''static_tokens'', SubKind = [], Version = ''v2'',
      Metadata = \<lparr>Name = ''static_tokens'', Namespace = ''default'', Expires = None, ID = i\<rparr>,
      Spec = \<lparr>StaticTokens = []\<rparr>\<rparr>"

definition sample_encode :: "StaticTokensV2 option \<Rightarrow> error + byte list" where
  "sample_encode r =
     (case r of
        None \<Rightarrow> Inl (OtherError ''nil resource'')
      | Some v \<Rightarrow> Inr [ucast (Metadata.ID (Metadata v))])"

definition sample_decode :: "byte list \<Rightarrow> error + StaticTokensV2" where
  "sample_decode bs =
     (case bs of
        [b] \<Rightarrow> Inr (sample_resource (ucast b))
      | _ \<Rightarrow> Inl (OtherError ''malformed resource''))"

definition sample_env :: env where
  \<open>sample_env =
     \<lparr>defaults_Namespace = ''default'',
      V2SchemaTemplate = ''{"metadata": %v, "spec": %v%v}'',
      MetadataSchema = ''{}'',
      DefaultDefinitions = [],
      utils_FastMarshal = sample_encode,
      utils_FastUnmarshal = sample_decode,
      utils_UnmarshalWithSchema = (\<lambda>schema. sample_decode),
      fmt_Sprintf = (\<lambda>format a. format)\<rparr>\<close>

definition failing_option :: MarshalOption where
  "failing_option cfg = Inl (OtherError ''option rejected'')"

definition rejecting_defaults :: "Metadata \<Rightarrow> Metadata \<times> error option" where
  "rejecting_defaults m = (m, Some (BadParameter ''metadata rejected''))"

text \<open>
  The envelope's invariant after defaulting: name and namespace are non-empty.
\<close>

definition valid :: "StaticTokensV2 \<Rightarrow> bool" where
  "valid r \<longleftrightarrow> Name (Metadata r) \<noteq> [] \<and> Namespace (Metadata r) \<noteq> []"

text \<open>
  The schema as section 4.3 of the spec words it, for comparison with
  \<open>GetStaticTokensSchema\<close>: the fragment is tested, and injected comma-prefixed
  unless it is empty.
\<close>

definition GetSchema_spec :: "env \<Rightarrow> string \<Rightarrow> string" where
  "GetSchema_spec E extensionFragment =
     (let payload =
            (if extensionFragment = []
             then Sprintf E StaticTokensSpecSchemaTemplate [str []]
             else Sprintf E StaticTokensSpecSchemaTemplate [str ('','' @ extensionFragment)])
      in Sprintf E (V2SchemaTemplate E)
           [str (MetadataSchema E), str payload, str (DefaultDefinitions E)])"

section \<open>Properties\<close>

subsection \<open>Auxiliary facts\<close>

lemma CollectOptions_Nil: "CollectOptions [] = Inr zero_MarshalConfig"
  by (simp add: CollectOptions_def)

lemma Metadata_CheckAndSetDefaults_valid:
  assumes "Name m \<noteq> []" and "Namespace m \<noteq> []"
  shows "Metadata_CheckAndSetDefaults E m = (m, None)"
  using assms by (simp add: Metadata_CheckAndSetDefaults_def)

lemma CheckAndSetDefaults_valid:
  assumes "valid r"
  shows "CheckAndSetDefaults E r = (r, None)"
  using assms
  by (simp add: CheckAndSetDefaults_def CheckAndSetDefaults_with_def valid_def
        Metadata_CheckAndSetDefaults_valid)

lemma valid_SetResourceID: "valid (SetResourceID r i) = valid r"
  by (simp add: valid_def SetResourceID_def)

text \<open>
  What a successful \<open>Unmarshal\<close> went through, and the converse.
\<close>

lemma Unmarshal_Inr:
  assumes "Unmarshal E bs opts = Inr r"
  shows "\<exists>cfg d d'. CollectOptions opts = Inr cfg \<and> decode E cfg bs = Inr d \<and>
           CheckAndSetDefaults E d = (d', None) \<and> r = overrides cfg d'"
  using assms
  by (auto simp: Unmarshal_def split: if_splits sum.splits prod.splits option.splits)

lemma Unmarshal_success:
  assumes "bs \<noteq> []" and "CollectOptions opts = Inr cfg" and "decode E cfg bs = Inr d"
    and "CheckAndSetDefaults E d = (d', None)"
  shows "Unmarshal E bs opts = Inr (overrides cfg d')"
  using assms by (simp add: Unmarshal_def)

lemma overrides_zero: "overrides zero_MarshalConfig r = r"
  by (simp add: overrides_def zero_MarshalConfig_def IsZero_def)

lemma GetResourceID_SetExpiry: "GetResourceID (SetExpiry r t) = GetResourceID r"
  by (simp add: GetResourceID_def SetExpiry_def Metadata_SetExpiry_def)

lemma GetResourceID_SetResourceID: "GetResourceID (SetResourceID r i) = i"
  by (simp add: GetResourceID_def SetResourceID_def)

lemma Expires_SetResourceID:
  "Metadata.Expires (Metadata (SetResourceID r i)) = Metadata.Expires (Metadata r)"
  by (simp add: SetResourceID_def)

text \<open>
  \<open>Marshal\<close> without PreserveResourceID: the encoder reads a new object, and the
  heap grows by that object. In every case the heap is left as it was or grows by
  one object.
\<close>

lemma Marshal_copy:
  assumes "CollectOptions opts = Inr cfg" and "\<not> PreserveResourceID cfg" and "deref h p = Some v"
  shows "Marshal E h (StaticTokensV2_ptr p) opts =
           (utils_FastMarshal E (Some (SetResourceID v 0)), h @ [SetResourceID v 0])"
  using assms
  by (simp add: Marshal_def alloc_def SetResourceID_at_def deref_def)

lemma Marshal_heap:
  "snd (Marshal E h c opts) = h \<or> (\<exists>v. snd (Marshal E h c opts) = h @ [v])"
  by (auto simp: Marshal_def alloc_def SetResourceID_at_def deref_def
           split: sum.splits StaticTokens.splits option.splits)

text \<open>
  The sample environment, evaluated.
\<close>

lemma sample_CollectOptions_ID:
  "CollectOptions [WithResourceID i] = Inr (zero_MarshalConfig\<lparr>ID := i\<rparr>)"
  by (simp add: CollectOptions_def WithResourceID_def)

lemma sample_CollectOptions_zero:
  "CollectOptions [WithResourceID 0, WithExpires 0] = Inr zero_MarshalConfig"
  by (simp add: CollectOptions_def WithResourceID_def WithExpires_def zero_MarshalConfig_def)

lemma sample_decode_byte:
  "decode sample_env zero_MarshalConfig [b] = Inr (sample_resource (ucast b))"
  by (simp add: decode_def sample_env_def sample_decode_def zero_MarshalConfig_def)

lemma sample_decode_ID:
  "decode sample_env (zero_MarshalConfig\<lparr>ID := i\<rparr>) [b] = Inr (sample_resource (ucast b))"
  by (simp add: decode_def sample_env_def sample_decode_def zero_MarshalConfig_def)

lemma valid_sample_resource: "valid (sample_resource i)"
  by (simp add: valid_def sample_resource_def)

lemma sample_resource_strip:
  "(sample_resource i)\<lparr>Metadata := (Metadata (sample_resource i))\<lparr>Metadata.ID := 0\<rparr>\<rparr> =
     sample_resource 0"
  by (simp add: sample_resource_def)

lemma sample_SetResourceID: "SetResourceID (sample_resource i) j = sample_resource j"
  by (simp add: sample_resource_def SetResourceID_def)

lemma sample_encode_resource: "utils_FastMarshal sample_env (Some (sample_resource 0)) = Inr [0]"
  by (simp add: sample_env_def sample_encode_def sample_resource_def)

lemma sample_decode_schema:
  "utils_UnmarshalWithSchema sample_env schema [0] = Inr (sample_resource 0)"
  by (simp add: sample_env_def sample_decode_def)

lemma DefaultStaticTokens_sample: "DefaultStaticTokens sample_env = sample_resource 0"
  by (simp add: DefaultStaticTokens_def sample_resource_def sample_env_def KindStaticTokens_def
        V2_def MetaNameStaticTokens_def)

lemma sample_Unmarshal_42:
  "Unmarshal sample_env [7] [WithResourceID 42] = Inr (sample_resource 42)"
proof -
  have "Unmarshal sample_env [7] [WithResourceID 42] =
          Inr (overrides (zero_MarshalConfig\<lparr>ID := 42\<rparr>) (sample_resource (ucast (7 :: byte))))"
    by (rule Unmarshal_success [OF _ sample_CollectOptions_ID sample_decode_ID
              CheckAndSetDefaults_valid [OF valid_sample_resource]]) simp
  then show ?thesis
    by (simp add: overrides_def zero_MarshalConfig_def IsZero_def sample_SetResourceID)
qed

lemma sample_Unmarshal_7:
  "Unmarshal sample_env [7] [WithResourceID 0, WithExpires 0] = Inr (sample_resource 7)"
proof -
  have "Unmarshal sample_env [7] [WithResourceID 0, WithExpires 0] =
          Inr (overrides zero_MarshalConfig (sample_resource (ucast (7 :: byte))))"
    by (rule Unmarshal_success [OF _ sample_CollectOptions_zero sample_decode_byte
              CheckAndSetDefaults_valid [OF valid_sample_resource]]) simp
  then show ?thesis
    by (simp add: overrides_zero)
qed

subsection \<open>The schema assembler\<close>

text \<open>
  Claim C1 says that a non-empty extension fragment is injected, comma-prefixed,
  into the payload-schema template. The code tests its own freshly declared
  local, which is always empty, so the branch that injects the fragment is never
  taken: every fragment gives the schema of the empty fragment, and at the
  fragment \<open>"x": {}\<close> the result differs from the schema the claim describes.
\<close>

theorem GetStaticTokensSchema_ignores_extension:
  \<open>GetStaticTokensSchema E extensionSchema = GetStaticTokensSchema E [] \<and>
   GetStaticTokensSchema sample_env ''"x": {}'' \<noteq> GetSchema_spec sample_env ''"x": {}''\<close>
proof
  show "GetStaticTokensSchema E extensionSchema = GetStaticTokensSchema E []"
    by (simp add: GetStaticTokensSchema_def)
  show \<open>GetStaticTokensSchema sample_env ''"x": {}'' \<noteq> GetSchema_spec sample_env ''"x": {}''\<close>
    by code_simp
qed

subsection \<open>Decoding\<close>

text \<open>
  Claim C3. For every option list, \<open>Unmarshal\<close> called with an empty byte slice
  returns a BadParameter error and no resource, and does not panic: the length
  test comes before the options are even collected.
\<close>

theorem Unmarshal_empty_BadParameter:
  "Unmarshal E [] opts = Inl (BadParameter ''missing resource data'')"
  by (simp add: Unmarshal_def trace_BadParameter_def Sprintf_def)

text \<open>
  Claim C4. Whenever \<open>Unmarshal\<close> returns a resource and the collected options
  hold a nonzero ID \<open>v\<close>, the resource ID of the result is \<open>v\<close>, whatever the
  bytes held. The override is applied to the resource that decoding and
  \<open>CheckAndSetDefaults\<close> produced, and only the expiry override comes after it.
\<close>

theorem Unmarshal_ID_override:
  assumes "CollectOptions opts = Inr cfg" and "ID cfg = v" and "v \<noteq> 0"
    and "Unmarshal E bs opts = Inr r"
  shows "GetResourceID r = v \<and>
         (\<exists>d d'. decode E cfg bs = Inr d \<and> CheckAndSetDefaults E d = (d', None) \<and>
            r = (if IsZero (Expires cfg) then SetResourceID d' v
                 else SetExpiry (SetResourceID d' v) (Expires cfg)))"
proof -
  from Unmarshal_Inr [OF assms(4)] assms(1)
  obtain d d' where d: "decode E cfg bs = Inr d" "CheckAndSetDefaults E d = (d', None)"
    and r: "r = overrides cfg d'"
    by auto
  have r': "r = (if IsZero (Expires cfg) then SetResourceID d' v
                 else SetExpiry (SetResourceID d' v) (Expires cfg))"
    using r assms(2,3) by (simp add: overrides_def)
  then have "GetResourceID r = v"
    by (simp add: GetResourceID_SetExpiry GetResourceID_SetResourceID)
  with d r' show ?thesis by blast
qed

theorem Unmarshal_ID_override_witness:
  "CollectOptions [WithResourceID 42] = Inr (zero_MarshalConfig\<lparr>ID := 42\<rparr>) \<and>
   decode sample_env (zero_MarshalConfig\<lparr>ID := 42\<rparr>) [7] = Inr (sample_resource 7) \<and>
   Unmarshal sample_env [7] [WithResourceID 42] = Inr (sample_resource 42) \<and>
   GetResourceID (sample_resource 42) = 42"
proof -
  have h2: "ID (zero_MarshalConfig\<lparr>ID := 42\<rparr>) = 42"
    by simp
  have h3: "(42 :: int64) \<noteq> 0"
    by simp
  show ?thesis
    using Unmarshal_ID_override [OF sample_CollectOptions_ID h2 h3 sample_Unmarshal_42]
      sample_CollectOptions_ID sample_Unmarshal_42 sample_decode_ID [of 42 7]
    by simp
qed

text \<open>
  Claim C10. Zero-valued overrides are not applied. Whenever \<open>Unmarshal\<close>
  returns a resource: if the collected ID is 0, the resource ID is the one
  decoding and defaulting produced; if the collected expiry is the zero instant,
  so is the expiry; and if both are zero, the result is exactly the decoded and
  defaulted resource.
\<close>

theorem Unmarshal_zero_overrides_skipped:
  assumes "CollectOptions opts = Inr cfg" and "Unmarshal E bs opts = Inr r"
  shows "\<exists>d d'. decode E cfg bs = Inr d \<and> CheckAndSetDefaults E d = (d', None) \<and>
           (ID cfg = 0 \<longrightarrow> GetResourceID r = GetResourceID d') \<and>
           (IsZero (Expires cfg) \<longrightarrow>
              Metadata.Expires (Metadata r) = Metadata.Expires (Metadata d') \<and>
              Expiry r = Expiry d') \<and>
           (ID cfg = 0 \<and> IsZero (Expires cfg) \<longrightarrow> r = d')"
proof -
  from Unmarshal_Inr [OF assms(2)] assms(1)
  obtain d d' where d: "decode E cfg bs = Inr d" "CheckAndSetDefaults E d = (d', None)"
    and r: "r = overrides cfg d'"
    by auto
  have 1: "ID cfg = 0 \<longrightarrow> GetResourceID r = GetResourceID d'"
    using r by (simp add: overrides_def GetResourceID_SetExpiry)
  have 2: "IsZero (Expires cfg) \<longrightarrow>
      Metadata.Expires (Metadata r) = Metadata.Expires (Metadata d') \<and> Expiry r = Expiry d'"
    using r by (simp add: overrides_def Expires_SetResourceID Expiry_def Metadata_Expiry_def)
  have 3: "ID cfg = 0 \<and> IsZero (Expires cfg) \<longrightarrow> r = d'"
    using r by (simp add: overrides_def)
  from d 1 2 3 show ?thesis by blast
qed

theorem Unmarshal_zero_overrides_skipped_witness:
  "CollectOptions [WithResourceID 0, WithExpires 0] = Inr zero_MarshalConfig \<and>
   ID zero_MarshalConfig = 0 \<and> IsZero (Expires zero_MarshalConfig) \<and>
   decode sample_env zero_MarshalConfig [7] = Inr (sample_resource 7) \<and>
   Unmarshal sample_env [7] [WithResourceID 0, WithExpires 0] = Inr (sample_resource 7)"
  using Unmarshal_zero_overrides_skipped [OF sample_CollectOptions_zero sample_Unmarshal_7]
    sample_CollectOptions_zero sample_Unmarshal_7 sample_decode_byte [of 7]
  by (simp add: zero_MarshalConfig_def IsZero_def)

subsection \<open>Defaulting\<close>

text \<open>
  Claim C5. \<open>CheckAndSetDefaults\<close> is idempotent: called on the state a first
  call left, it leaves that state and reports what the first call reported.
\<close>

theorem CheckAndSetDefaults_idempotent:
  "CheckAndSetDefaults E (fst (CheckAndSetDefaults E c)) = CheckAndSetDefaults E c"
  by (simp add: CheckAndSetDefaults_def CheckAndSetDefaults_with_def
        Metadata_CheckAndSetDefaults_def Let_def)

subsection \<open>Encoding\<close>

text \<open>
  Claim C6. For every heap, every resource and every option list, \<open>Marshal\<close>
  leaves every object that existed before the call as it was, whatever it
  returns (an encoding failure included). When the collected options do not set
  PreserveResourceID, what is encoded is a new object: the resource with its ID
  reset to zero.
\<close>

theorem Marshal_frame:
  "take (length h) (snd (Marshal E h c opts)) = h \<and>
   (CollectOptions opts = Inr cfg \<and> \<not> PreserveResourceID cfg \<and> deref h p = Some v \<longrightarrow>
      Marshal E h (StaticTokensV2_ptr p) opts =
        (utils_FastMarshal E (Some (SetResourceID v 0)), h @ [SetResourceID v 0]))"
proof
  show "take (length h) (snd (Marshal E h c opts)) = h"
    using Marshal_heap [of E h c opts] by auto
  show "CollectOptions opts = Inr cfg \<and> \<not> PreserveResourceID cfg \<and> deref h p = Some v \<longrightarrow>
      Marshal E h (StaticTokensV2_ptr p) opts =
        (utils_FastMarshal E (Some (SetResourceID v 0)), h @ [SetResourceID v 0])"
    using Marshal_copy by blast
qed

theorem Marshal_frame_witness:
  "CollectOptions [] = Inr zero_MarshalConfig \<and> \<not> PreserveResourceID zero_MarshalConfig \<and>
   deref [sample_resource 7] 0 = Some (sample_resource 7) \<and>
   Marshal sample_env [sample_resource 7] (StaticTokensV2_ptr 0) [] =
     (Inr [0], [sample_resource 7, sample_resource 0]) \<and>
   Marshal sample_env [sample_resource 7] (StaticTokensV2_ptr 0) [opt_PreserveResourceID] =
     (Inr [7], [sample_resource 7])"
proof -
  have h: "CollectOptions [] = Inr zero_MarshalConfig \<and> \<not> PreserveResourceID zero_MarshalConfig \<and>
      deref [sample_resource 7] 0 = Some (sample_resource 7)"
    by (simp add: CollectOptions_Nil zero_MarshalConfig_def deref_def)
  have p: "Marshal sample_env [sample_resource 7] (StaticTokensV2_ptr 0) [opt_PreserveResourceID] =
      (Inr [7], [sample_resource 7])"
    by (simp add: Marshal_def CollectOptions_def opt_PreserveResourceID_def deref_def
          sample_env_def sample_encode_def sample_resource_def)
  show ?thesis
    using h p Marshal_frame [of "[sample_resource 7]" sample_env "StaticTokensV2_ptr 0" "[]"
        zero_MarshalConfig 0 "sample_resource 7"]
    by (simp add: sample_SetResourceID sample_encode_resource)
qed

text \<open>
  Claim C7, as amended. The options are collected before the type switch. For a
  value whose dynamic type is not \<open>*StaticTokensV2\<close>, \<open>Marshal\<close> returns no
  bytes and leaves the heap alone: when the options are collected it returns the
  BadParameter error "unrecognized resource version" followed by the type, and
  when an option fails it returns that option's error.
\<close>

theorem Marshal_unrecognized:
  "Marshal E h (Other_impl t) opts =
     (case CollectOptions opts of
        Inl err \<Rightarrow> (Inl err, h)
      | Inr cfg \<Rightarrow> (Inl (BadParameter (''unrecognized resource version '' @ type_name t)), h))"
  by (simp add: Marshal_def trace_BadParameter_def trace_Wrap_def Sprintf_def verb_def
           split: sum.splits)

text \<open>
  The claim as stated fails: with an option that fails, the error returned for a
  foreign type is the option's, not a BadParameter error naming the type.
\<close>

theorem Marshal_unrecognized_counterexample:
  "Marshal sample_env [] (Other_impl (Arg ''*types.StaticTokensV3'' ''&{}'')) [failing_option] =
     (Inl (OtherError ''option rejected''), [])"
  by (simp add: Marshal_def CollectOptions_def failing_option_def trace_Wrap_def)

subsection \<open>Round trips\<close>

text \<open>
  Claim C2. Let \<open>r\<close> be a valid resource (name and namespace non-empty) at
  address \<open>p\<close>, and let the codec be lossless on \<open>r\<close> with its ID reset: the
  encoder gives a non-empty \<open>bs\<close> for it and the validating decoder gives it
  back from \<open>bs\<close>. Then \<open>Marshal\<close> with no options returns \<open>bs\<close>, and
  \<open>Unmarshal\<close> of \<open>bs\<close> with no options returns \<open>r\<close> with the resource ID zero
  and every other field unchanged.
\<close>

theorem Unmarshal_Marshal_roundtrip:
  assumes "deref h p = Some r" and "valid r"
    and "utils_FastMarshal E (Some (r\<lparr>Metadata := (Metadata r)\<lparr>Metadata.ID := 0\<rparr>\<rparr>)) = Inr bs"
    and "bs \<noteq> []"
    and "utils_UnmarshalWithSchema E (GetStaticTokensSchema E []) bs =
           Inr (r\<lparr>Metadata := (Metadata r)\<lparr>Metadata.ID := 0\<rparr>\<rparr>)"
  shows "fst (Marshal E h (StaticTokensV2_ptr p) []) = Inr bs \<and>
         Unmarshal E bs [] = Inr (r\<lparr>Metadata := (Metadata r)\<lparr>Metadata.ID := 0\<rparr>\<rparr>)"
proof -
  let ?r0 = "r\<lparr>Metadata := (Metadata r)\<lparr>Metadata.ID := 0\<rparr>\<rparr>"
  have r0: "SetResourceID r 0 = ?r0"
    by (simp add: SetResourceID_def)
  have cfg: "\<not> PreserveResourceID zero_MarshalConfig" "\<not> SkipValidation zero_MarshalConfig"
    by (simp_all add: zero_MarshalConfig_def)
  have "Marshal E h (StaticTokensV2_ptr p) [] = (utils_FastMarshal E (Some ?r0), h @ [?r0])"
    using Marshal_copy [OF CollectOptions_Nil cfg(1) assms(1), of E] by (simp add: r0)
  then have m: "fst (Marshal E h (StaticTokensV2_ptr p) []) = Inr bs"
    using assms(3) by simp
  have d: "decode E zero_MarshalConfig bs = Inr ?r0"
    using assms(5) cfg(2) by (simp add: decode_def)
  have "valid ?r0"
    using assms(2) valid_SetResourceID [of r 0] by (simp add: r0)
  then have c: "CheckAndSetDefaults E ?r0 = (?r0, None)"
    by (rule CheckAndSetDefaults_valid)
  have "Unmarshal E bs [] = Inr (overrides zero_MarshalConfig ?r0)"
    by (rule Unmarshal_success [OF assms(4) CollectOptions_Nil d c])
  then have "Unmarshal E bs [] = Inr ?r0"
    by (simp add: overrides_zero)
  with m show ?thesis by simp
qed

theorem Unmarshal_Marshal_roundtrip_witness:
  "valid (sample_resource 7) \<and>
   fst (Marshal sample_env [sample_resource 7] (StaticTokensV2_ptr 0) []) = Inr [0] \<and>
   Unmarshal sample_env [0] [] = Inr (sample_resource 0)"
proof -
  have h1: "deref [sample_resource 7] 0 = Some (sample_resource 7)"
    by (simp add: deref_def)
  have h3: "utils_FastMarshal sample_env
      (Some ((sample_resource 7)\<lparr>Metadata := (Metadata (sample_resource 7))\<lparr>Metadata.ID := 0\<rparr>\<rparr>)) =
      Inr [0]"
    by (simp add: sample_resource_strip sample_encode_resource)
  have h4: "[0 :: byte] \<noteq> []"
    by simp
  have h5: "utils_UnmarshalWithSchema sample_env (GetStaticTokensSchema sample_env []) [0] =
      Inr ((sample_resource 7)\<lparr>Metadata := (Metadata (sample_resource 7))\<lparr>Metadata.ID := 0\<rparr>\<rparr>)"
    by (simp add: sample_resource_strip sample_decode_schema)
  show ?thesis
    using Unmarshal_Marshal_roundtrip [OF h1 valid_sample_resource h3 h4 h5] valid_sample_resource
    by (simp add: sample_resource_strip)
qed

text \<open>
  Claim C8. Take the resource \<open>NewStaticTokens\<close> builds from an empty entry
  list, or the one \<open>DefaultStaticTokens\<close> returns, at address \<open>p\<close>, and a codec
  that is lossless on it. The resource has kind "static_tokens", version "v2",
  name "static_tokens", the process default namespace and no entries, and so has
  the resource that marshaling and unmarshaling it with no options yields. And
  for every metadata defaulting, every namespace and every payload:
  \<open>NewStaticTokens\<close> returns no resource, but the error, when defaulting the
  stamped metadata fails, and otherwise returns the stamped resource with the
  metadata defaulting left.
\<close>

theorem NewStaticTokens_roundtrip:
  assumes "utils_FastMarshal E (Some (DefaultStaticTokens E)) = Inr bs" and "bs \<noteq> []"
    and "utils_UnmarshalWithSchema E (GetStaticTokensSchema E []) bs = Inr (DefaultStaticTokens E)"
    and "deref h p = Some r"
    and "NewStaticTokens E \<lparr>StaticTokens = []\<rparr> = Inr r \<or> r = DefaultStaticTokens E"
  shows "(GetKind r = ''static_tokens'' \<and> GetVersion r = ''v2'' \<and>
          GetName r = ''static_tokens'' \<and>
          Namespace (GetMetadata r) = defaults_Namespace E \<and>
          StaticTokens (Spec r) = []) \<and>
         (\<exists>r'. fst (Marshal E h (StaticTokensV2_ptr p) []) = Inr bs \<and>
            Unmarshal E bs [] = Inr r' \<and>
            GetKind r' = ''static_tokens'' \<and> GetVersion r' = ''v2'' \<and>
            GetName r' = ''static_tokens'' \<and>
            Namespace (GetMetadata r') = defaults_Namespace E \<and>
            StaticTokens (Spec r') = []) \<and>
         (md \<lparr>Name = MetaNameStaticTokens, Namespace = ns, Expires = None, ID = 0\<rparr> =
            (m, Some err) \<longrightarrow>
          NewStaticTokens_with md ns spec = Inl err) \<and>
         (md \<lparr>Name = MetaNameStaticTokens, Namespace = ns, Expires = None, ID = 0\<rparr> =
            (m, None) \<longrightarrow>
          NewStaticTokens_with md ns spec =
            Inr \<lparr>Kind = KindStaticTokens, SubKind = [], Version = V2, Metadata = m, Spec = spec\<rparr>)"
proof (intro conjI)
  let ?d = "DefaultStaticTokens E"
  have new: "NewStaticTokens E \<lparr>StaticTokens = []\<rparr> = Inr ?d"
    by (simp add: NewStaticTokens_def NewStaticTokens_with_def DefaultStaticTokens_def
          CheckAndSetDefaults_with_def Metadata_CheckAndSetDefaults_def MetaNameStaticTokens_def
          Let_def)
  with assms(5) have r: "r = ?d"
    by auto
  have strip: "SetResourceID ?d 0 = ?d"
    by (simp add: SetResourceID_def DefaultStaticTokens_def)
  have cfg: "\<not> PreserveResourceID zero_MarshalConfig" "\<not> SkipValidation zero_MarshalConfig"
    by (simp_all add: zero_MarshalConfig_def)
  have "Marshal E h (StaticTokensV2_ptr p) [] = (utils_FastMarshal E (Some ?d), h @ [?d])"
    using Marshal_copy [OF CollectOptions_Nil cfg(1) assms(4), of E] by (simp add: r strip)
  then have m: "fst (Marshal E h (StaticTokensV2_ptr p) []) = Inr bs"
    using assms(1) by simp
  have d: "decode E zero_MarshalConfig bs = Inr ?d"
    using assms(3) cfg(2) by (simp add: decode_def)
  have c: "CheckAndSetDefaults E ?d = (?d, None)"
    by (simp add: CheckAndSetDefaults_def CheckAndSetDefaults_with_def
          Metadata_CheckAndSetDefaults_def DefaultStaticTokens_def MetaNameStaticTokens_def Let_def)
  have "Unmarshal E bs [] = Inr (overrides zero_MarshalConfig ?d)"
    by (rule Unmarshal_success [OF assms(2) CollectOptions_Nil d c])
  then have u: "Unmarshal E bs [] = Inr ?d"
    by (simp add: overrides_zero)
  have f: "GetKind ?d = ''static_tokens'' \<and> GetVersion ?d = ''v2'' \<and>
        GetName ?d = ''static_tokens'' \<and>
        Namespace (GetMetadata ?d) = defaults_Namespace E \<and> StaticTokens (Spec ?d) = []"
    by (simp add: DefaultStaticTokens_def KindStaticTokens_def V2_def MetaNameStaticTokens_def
          GetKind_def GetVersion_def GetName_def GetMetadata_def)
  from f r show "GetKind r = ''static_tokens''" "GetVersion r = ''v2''"
    "GetName r = ''static_tokens''" "Namespace (GetMetadata r) = defaults_Namespace E"
    "StaticTokens (Spec r) = []"
    by simp_all
  from m u f show "\<exists>r'. fst (Marshal E h (StaticTokensV2_ptr p) []) = Inr bs \<and>
            Unmarshal E bs [] = Inr r' \<and>
            GetKind r' = ''static_tokens'' \<and> GetVersion r' = ''v2'' \<and>
            GetName r' = ''static_tokens'' \<and>
            Namespace (GetMetadata r') = defaults_Namespace E \<and>
            StaticTokens (Spec r') = []"
    by blast
  show "md \<lparr>Name = MetaNameStaticTokens, Namespace = ns, Expires = None, ID = 0\<rparr> =
            (m, Some err) \<longrightarrow>
          NewStaticTokens_with md ns spec = Inl err"
    by (simp add: NewStaticTokens_with_def CheckAndSetDefaults_with_def trace_Wrap_def Let_def)
  show "md \<lparr>Name = MetaNameStaticTokens, Namespace = ns, Expires = None, ID = 0\<rparr> =
            (m, None) \<longrightarrow>
          NewStaticTokens_with md ns spec =
            Inr \<lparr>Kind = KindStaticTokens, SubKind = [], Version = V2, Metadata = m, Spec = spec\<rparr>"
    by (simp add: NewStaticTokens_with_def CheckAndSetDefaults_with_def Let_def)
qed

theorem NewStaticTokens_roundtrip_witness:
  "NewStaticTokens sample_env \<lparr>StaticTokens = []\<rparr> = Inr (sample_resource 0) \<and>
   GetKind (sample_resource 0) = ''static_tokens'' \<and>
   fst (Marshal sample_env [sample_resource 0] (StaticTokensV2_ptr 0) []) = Inr [0] \<and>
   Unmarshal sample_env [0] [] = Inr (sample_resource 0) \<and>
   Namespace (Metadata (sample_resource 0)) = defaults_Namespace sample_env \<and>
   rejecting_defaults
     \<lparr>Name = MetaNameStaticTokens, Namespace = ''default'', Expires = None, ID = 0\<rparr> =
     (\<lparr>Name = MetaNameStaticTokens, Namespace = ''default'', Expires = None, ID = 0\<rparr>,
      Some (BadParameter ''metadata rejected'')) \<and>
   NewStaticTokens_with rejecting_defaults ''default'' \<lparr>StaticTokens = []\<rparr> =
     Inl (BadParameter ''metadata rejected'') \<and>
   NewStaticTokens_with (Metadata_CheckAndSetDefaults sample_env) ''default''
     \<lparr>StaticTokens = []\<rparr> = Inr (sample_resource 0)"
proof -
  let ?m = "\<lparr>Name = MetaNameStaticTokens, Namespace = ''default'', Expires = None, ID = 0\<rparr>"
  have h1: "utils_FastMarshal sample_env (Some (DefaultStaticTokens sample_env)) = Inr [0]"
    by (simp add: DefaultStaticTokens_sample sample_encode_resource)
  have h2: "[0 :: byte] \<noteq> []"
    by simp
  have h3: "utils_UnmarshalWithSchema sample_env (GetStaticTokensSchema sample_env []) [0] =
      Inr (DefaultStaticTokens sample_env)"
    by (simp add: DefaultStaticTokens_sample sample_decode_schema)
  have h4: "deref [sample_resource 0] 0 = Some (sample_resource 0)"
    by (simp add: deref_def)
  have ok: "Metadata_CheckAndSetDefaults sample_env ?m = (?m, None)"
    by (simp add: Metadata_CheckAndSetDefaults_def MetaNameStaticTokens_def)
  have bad: "rejecting_defaults ?m = (?m, Some (BadParameter ''metadata rejected''))"
    by (simp add: rejecting_defaults_def)
  have stamped: "\<lparr>Kind = KindStaticTokens, SubKind = [], Version = V2, Metadata = ?m,
      Spec = \<lparr>StaticTokens = []\<rparr>\<rparr> = sample_resource 0"
    by (simp add: sample_resource_def KindStaticTokens_def V2_def MetaNameStaticTokens_def)
  have h5: "NewStaticTokens sample_env \<lparr>StaticTokens = []\<rparr> = Inr (sample_resource 0) \<or>
      sample_resource 0 = DefaultStaticTokens sample_env"
    by (simp add: DefaultStaticTokens_sample)
  note main = NewStaticTokens_roundtrip [OF h1 h2 h3 h4 h5]
  have fields: "GetKind (sample_resource 0) = ''static_tokens''"
    and ns: "Namespace (GetMetadata (sample_resource 0)) = defaults_Namespace sample_env"
    using main by blast+
  obtain r' where "fst (Marshal sample_env [sample_resource 0] (StaticTokensV2_ptr 0) []) = Inr [0]"
    and "Unmarshal sample_env [0] [] = Inr r'"
    using main by blast
  moreover have "Unmarshal sample_env [0] [] = Inr (sample_resource 0)"
    using Unmarshal_success [OF h2 CollectOptions_Nil sample_decode_byte [of 0]
        CheckAndSetDefaults_valid [OF valid_sample_resource]]
    by (simp add: overrides_zero)
  moreover have fail: "NewStaticTokens_with rejecting_defaults ''default'' \<lparr>StaticTokens = []\<rparr> =
      Inl (BadParameter ''metadata rejected'')"
    using main [where md = rejecting_defaults and ns = "''default''" and m = ?m
        and err = "BadParameter ''metadata rejected''" and spec = "\<lparr>StaticTokens = []\<rparr>"] bad
    by blast
  moreover have new: "NewStaticTokens_with (Metadata_CheckAndSetDefaults sample_env) ''default''
      \<lparr>StaticTokens = []\<rparr> = Inr (sample_resource 0)"
    using main [where md = "Metadata_CheckAndSetDefaults sample_env" and ns = "''default''"
        and m = ?m and spec = "\<lparr>StaticTokens = []\<rparr>"] ok stamped
    by simp
  moreover have "NewStaticTokens sample_env \<lparr>StaticTokens = []\<rparr> = Inr (sample_resource 0)"
    using new by (simp add: NewStaticTokens_def sample_env_def)
  ultimately show ?thesis
    using fields ns bad by (simp add: GetMetadata_def)
qed

end
